theory Spec2Isabelle
  imports
    Complex_Main
    "HOL-Library.Char_ord"
    "HOL-Library.List_Lexorder"
    "HOL-Library.Sublist"
    "HOL-Library.AList"
begin

section \<open>Conventions of the embedding\<close>

text \<open>
  The clinic-operations backend is TypeScript. Its values are embedded as follows.
  \<^item> A JavaScript string is a \<^typ>\<open>string\<close>; the strings of interest (codes, ISO
    timestamps, identifiers) are ASCII, where a \<^typ>\<open>char\<close> is one UTF-16 code unit,
    \<^const>\<open>length\<close> is \<^verbatim>\<open>.length\<close>, and \<^verbatim>\<open><\<close> on strings is the
    lexicographic order of the code units.
  \<^item> A thrown value is the left summand of a sum type; \<^verbatim>\<open>undefined\<close>/\<^verbatim>\<open>null\<close>
    is \<^const>\<open>None\<close>.
  \<^item> Every \<^verbatim>\<open>Map\<close> of the in-memory stores is written by a \<^verbatim>\<open>save\<close> method
    under the \<^verbatim>\<open>id\<close> of the record saved. It is the list of its records in insertion
    order; \<^verbatim>\<open>set\<close> replaces the record of the same id where it stands, or appends.
  \<^item> The clock (\<^verbatim>\<open>Date.now()\<close>, \<^verbatim>\<open>nowIso()\<close>) and \<^verbatim>\<open>crypto.randomUUID()\<close> are
    arguments of the operation that reads them.
  \<^item> Record fields that no modelled operation reads or writes are left out; a field
    name shared by several interfaces carries a prefix.
\<close>

datatype js_error =
    Error (message: string)          \<comment> \<open>\<^verbatim>\<open>new Error(message)\<close>\<close>
  | Thrown (rendered: string)        \<comment> \<open>any other thrown value, with its \<^verbatim>\<open>String(value)\<close>\<close>


section \<open>JavaScript built-ins used by the service\<close>

subsection \<open>Numbers\<close>

text \<open>
  A JavaScript number that counts (minutes, hours, milliseconds, priorities) is an
  \<^typ>\<open>int\<close>. An amount of money is a \<^typ>\<open>rat\<close>: the arithmetic of the service is
  read as exact arithmetic, which is what IEEE doubles compute on the values of the
  examples below (integers far below \<open>2^53\<close>); \<^verbatim>\<open>NaN\<close> and the infinities have no
  counterpart.

  \<^verbatim>\<open>Number(x.toFixed(2))\<close>: \<^verbatim>\<open>toFixed\<close> takes the integer \<open>n\<close> with \<open>n / 100\<close> closest
  to \<open>x\<close>, the larger one of two, and treats a negative \<open>x\<close> through \<open>- x\<close>.
\<close>

definition toFixed2 :: "rat \<Rightarrow> rat" where
  "toFixed2 x =
    (if x < 0 then - (of_int \<lfloor>(- x) * 100 + 1 / 2\<rfloor> / 100)
     else of_int \<lfloor>x * 100 + 1 / 2\<rfloor> / 100)"

subsection \<open>Strings\<close>

definition toUpperCase :: "string \<Rightarrow> string" where
  "toUpperCase s =
    map (\<lambda>c. if CHR ''a'' \<le> c \<and> c \<le> CHR ''z''
             then char_of (of_char c - (32::nat)) else c) s"

definition startsWith :: "string \<Rightarrow> string \<Rightarrow> bool" where
  "startsWith s p = prefix p s"

definition digitChar :: "nat \<Rightarrow> char" where
  "digitChar n = ''0123456789'' ! (n mod 10)"

fun String_nat :: "nat \<Rightarrow> string" where
  "String_nat n =
    (if n < 10 then [digitChar n] else String_nat (n div 10) @ [digitChar (n mod 10)])"

declare String_nat.simps [simp del]

text \<open>\<^verbatim>\<open>String(n)\<close> for an integer \<open>n\<close>.\<close>

definition String_int :: "int \<Rightarrow> string" where
  "String_int n = (if n < 0 then CHR ''-'' # String_nat (nat (- n)) else String_nat (nat n))"

definition padStart :: "string \<Rightarrow> nat \<Rightarrow> char \<Rightarrow> string" where
  "padStart s n c = replicate (n - length s) c @ s"

subsection \<open>Dates\<close>

text \<open>
  An instant is an \<^typ>\<open>int\<close> of milliseconds since the epoch. \<^verbatim>\<open>new Date(s).getTime()\<close>
  is modelled on the full form \<^verbatim>\<open>YYYY-MM-DDTHH:mm:ss.sssZ\<close> of ECMAScript's date-time
  format, which is what the service builds and what \<^verbatim>\<open>toISOString\<close> writes; on any other
  text the model answers \<^const>\<open>None\<close>, which stands for \<^verbatim>\<open>NaN\<close>. As in V8, a day of the
  month up to 31 is accepted for every month and carried over, and hour 24 is accepted
  with zero minutes, seconds and milliseconds.
\<close>

definition msPerDay :: int where
  "msPerDay = 1000 * 60 * 60 * 24"

definition digitVal :: "char \<Rightarrow> int option" where
  "digitVal c =
    (if CHR ''0'' \<le> c \<and> c \<le> CHR ''9'' then Some (of_char c - 48) else None)"

fun parseDigits_acc :: "int \<Rightarrow> string \<Rightarrow> int option" where
  "parseDigits_acc acc [] = Some acc"
| "parseDigits_acc acc (c # cs) =
    (case digitVal c of None \<Rightarrow> None | Some d \<Rightarrow> parseDigits_acc (10 * acc + d) cs)"

definition parseDigits :: "string \<Rightarrow> int option" where
  "parseDigits s = (if s = [] then None else parseDigits_acc 0 s)"

definition InLeapYear :: "int \<Rightarrow> bool" where
  "InLeapYear y = (y mod 4 = 0 \<and> (y mod 100 \<noteq> 0 \<or> y mod 400 = 0))"

definition DayFromYear :: "int \<Rightarrow> int" where
  "DayFromYear y =
    365 * (y - 1970) + (y - 1969) div 4 - (y - 1901) div 100 + (y - 1601) div 400"

text \<open>Day of the year on which month \<open>m\<close> (1 to 12) begins.\<close>

definition monthStart :: "int \<Rightarrow> int \<Rightarrow> int" where
  "monthStart y m =
    [0, 31, 59, 90, 120, 151, 181, 212, 243, 273, 304, 334] ! nat (m - 1)
      + (if InLeapYear y \<and> m > 2 then 1 else 0)"

definition MakeDay :: "int \<Rightarrow> int \<Rightarrow> int \<Rightarrow> int" where
  "MakeDay y m d = DayFromYear y + monthStart y m + d - 1"

text \<open>The date part \<^verbatim>\<open>YYYY-MM-DD\<close>, as a day number.\<close>

definition parseDatePart :: "string \<Rightarrow> int option" where
  "parseDatePart s =
    (if length s = 10 \<and> s ! 4 = CHR ''-'' \<and> s ! 7 = CHR ''-'' then
       (case (parseDigits (take 4 s), parseDigits (take 2 (drop 5 s)),
              parseDigits (drop 8 s)) of
          (Some y, Some m, Some d) \<Rightarrow>
            if 1 \<le> m \<and> m \<le> 12 \<and> 1 \<le> d \<and> d \<le> 31
            then Some (MakeDay y m d) else None
        | _ \<Rightarrow> None)
     else None)"

text \<open>The time part \<^verbatim>\<open>HH:mm:ss.sssZ\<close>, as milliseconds into the day.\<close>

definition parseTimePart :: "string \<Rightarrow> int option" where
  "parseTimePart s =
    (if length s = 13 \<and> s ! 2 = CHR '':'' \<and> s ! 5 = CHR '':'' \<and> s ! 8 = CHR ''.''
        \<and> s ! 12 = CHR ''Z'' then
       (case (parseDigits (take 2 s), parseDigits (take 2 (drop 3 s)),
              parseDigits (take 2 (drop 6 s)), parseDigits (take 3 (drop 9 s))) of
          (Some h, Some mi, Some sec, Some ms) \<Rightarrow>
            if (h \<le> 23 \<and> mi \<le> 59 \<and> sec \<le> 59) \<or> (h = 24 \<and> mi = 0 \<and> sec = 0 \<and> ms = 0)
            then Some (((h * 60 + mi) * 60 + sec) * 1000 + ms)
            else None
        | _ \<Rightarrow> None)
     else None)"

definition Date_getTime :: "string \<Rightarrow> int option" where
  "Date_getTime s =
    (if length s = 24 \<and> s ! 10 = CHR ''T'' then
       (case (parseDatePart (take 10 s), parseTimePart (drop 11 s)) of
          (Some day, Some t) \<Rightarrow> Some (day * msPerDay + t)
        | _ \<Rightarrow> None)
     else None)"

text \<open>
  \<^verbatim>\<open>new Date(t).toISOString()\<close>: the civil date of the day number, then the time of day,
  every field in decimal digits of fixed width; a year outside 0 to 9999 is written with
  a sign and six digits.
\<close>

definition civilFromDays :: "int \<Rightarrow> int \<times> int \<times> int" where
  "civilFromDays z =
    (let z' = z + 719468;
         era = z' div 146097;
         doe = z' mod 146097;
         yoe = (doe - doe div 1460 + doe div 36524 - doe div 146096) div 365;
         doy = doe - (365 * yoe + yoe div 4 - yoe div 100);
         mp = (5 * doy + 2) div 153;
         d = doy - (153 * mp + 2) div 5 + 1;
         m = (if mp < 10 then mp + 3 else mp - 9);
         y = yoe + era * 400 + (if m \<le> 2 then 1 else 0)
     in (y, m, d))"

text \<open>The last \<open>w\<close> decimal digits of \<open>n\<close>.\<close>

fun fixedDigits :: "nat \<Rightarrow> int \<Rightarrow> string" where
  "fixedDigits 0 n = []"
| "fixedDigits (Suc w) n = fixedDigits w (n div 10) @ [digitChar (nat (n mod 10))]"

definition yearString :: "int \<Rightarrow> string" where
  "yearString y =
    (if 0 \<le> y \<and> y \<le> 9999 then fixedDigits 4 y
     else (if y < 0 then CHR ''-'' else CHR ''+'') # fixedDigits 6 \<bar>y\<bar>)"

definition isoDate :: "int \<Rightarrow> string" where
  "isoDate day =
    (case civilFromDays day of
       (y, m, d) \<Rightarrow> yearString y @ ''-'' @ fixedDigits 2 m @ ''-'' @ fixedDigits 2 d)"

definition isoTime :: "int \<Rightarrow> string" where
  "isoTime ms =
    fixedDigits 2 (ms div 3600000) @ '':'' @ fixedDigits 2 (ms div 60000 mod 60) @ '':''
      @ fixedDigits 2 (ms div 1000 mod 60) @ ''.'' @ fixedDigits 3 (ms mod 1000) @ ''Z''"

definition Date_toISOString :: "int \<Rightarrow> string" where
  "Date_toISOString t = isoDate (t div msPerDay) @ ''T'' @ isoTime (t mod msPerDay)"


section \<open>Authorization policy (\<^verbatim>\<open>src/security/auth.ts\<close>, \<^verbatim>\<open>src/domain.ts\<close>)\<close>

datatype UserRole =
  Admin | Dentist | Hygienist | Assistant | FrontDesk | Billing | Readonly | System

fun roleName :: "UserRole \<Rightarrow> string" where
  "roleName Admin = ''admin''"
| "roleName Dentist = ''dentist''"
| "roleName Hygienist = ''hygienist''"
| "roleName Assistant = ''assistant''"
| "roleName FrontDesk = ''front-desk''"
| "roleName Billing = ''billing''"
| "roleName Readonly = ''readonly''"
| "roleName System = ''system''"

datatype Permission =
    PatientRead | PatientWrite
  | AppointmentRead | AppointmentWrite
  | InsuranceRead | InsuranceWrite
  | TreatmentRead | TreatmentWrite
  | LedgerRead | LedgerWrite
  | ChartRead | ChartWrite
  | RecallRead | RecallWrite
  | TaskRead | TaskWrite
  | CommunicationRead | CommunicationWrite
  | ImageRead | ImageWrite | ImageAnalyze
  | MigrationWrite
  | AuditRead

text \<open>The string literal that each member of the union type \<^verbatim>\<open>Permission\<close> is.\<close>

fun permissionName :: "Permission \<Rightarrow> string" where
  "permissionName PatientRead = ''patient:read''"
| "permissionName PatientWrite = ''patient:write''"
| "permissionName AppointmentRead = ''appointment:read''"
| "permissionName AppointmentWrite = ''appointment:write''"
| "permissionName InsuranceRead = ''insurance:read''"
| "permissionName InsuranceWrite = ''insurance:write''"
| "permissionName TreatmentRead = ''treatment:read''"
| "permissionName TreatmentWrite = ''treatment:write''"
| "permissionName LedgerRead = ''ledger:read''"
| "permissionName LedgerWrite = ''ledger:write''"
| "permissionName ChartRead = ''chart:read''"
| "permissionName ChartWrite = ''chart:write''"
| "permissionName RecallRead = ''recall:read''"
| "permissionName RecallWrite = ''recall:write''"
| "permissionName TaskRead = ''task:read''"
| "permissionName TaskWrite = ''task:write''"
| "permissionName CommunicationRead = ''communication:read''"
| "permissionName CommunicationWrite = ''communication:write''"
| "permissionName ImageRead = ''image:read''"
| "permissionName ImageWrite = ''image:write''"
| "permissionName ImageAnalyze = ''image:analyze''"
| "permissionName MigrationWrite = ''migration:write''"
| "permissionName AuditRead = ''audit:read''"

definition allPermissions :: "Permission list" where
  "allPermissions =
    [PatientRead, PatientWrite, AppointmentRead, AppointmentWrite,
     InsuranceRead, InsuranceWrite, TreatmentRead, TreatmentWrite,
     LedgerRead, LedgerWrite, ChartRead, ChartWrite, RecallRead, RecallWrite,
     TaskRead, TaskWrite, CommunicationRead, CommunicationWrite,
     ImageRead, ImageWrite, ImageAnalyze, MigrationWrite, AuditRead]"

fun rolePermissions :: "UserRole \<Rightarrow> Permission list" where
  "rolePermissions Admin = allPermissions"
| "rolePermissions System = allPermissions"
| "rolePermissions Dentist =
    [PatientRead, PatientWrite, AppointmentRead, AppointmentWrite, InsuranceRead,
     TreatmentRead, TreatmentWrite, LedgerRead, ChartRead, ChartWrite,
     RecallRead, RecallWrite, TaskRead, TaskWrite,
     CommunicationRead, CommunicationWrite, ImageRead, ImageWrite, ImageAnalyze]"
| "rolePermissions Hygienist =
    [PatientRead, AppointmentRead, AppointmentWrite, InsuranceRead, TreatmentRead,
     ChartRead, ChartWrite, RecallRead, RecallWrite, TaskRead, TaskWrite,
     CommunicationRead, CommunicationWrite, ImageRead, ImageWrite, ImageAnalyze]"
| "rolePermissions Assistant =
    [PatientRead, AppointmentRead, AppointmentWrite, TreatmentRead,
     ChartRead, ChartWrite, TaskRead, TaskWrite,
     CommunicationRead, CommunicationWrite, ImageRead, ImageWrite, ImageAnalyze]"
| "rolePermissions FrontDesk =
    [PatientRead, PatientWrite, AppointmentRead, AppointmentWrite, InsuranceRead,
     RecallRead, RecallWrite, TaskRead, TaskWrite,
     CommunicationRead, CommunicationWrite]"
| "rolePermissions Billing =
    [PatientRead, AppointmentRead, InsuranceRead, InsuranceWrite, TreatmentRead,
     LedgerRead, LedgerWrite, CommunicationRead, CommunicationWrite,
     TaskRead, TaskWrite]"
| "rolePermissions Readonly =
    [PatientRead, AppointmentRead, InsuranceRead, TreatmentRead, LedgerRead,
     ChartRead, RecallRead, TaskRead, CommunicationRead, ImageRead]"

record Actor =
  userId :: string
  role :: UserRole
  purpose :: "string option"

definition hasPermission :: "UserRole \<Rightarrow> Permission \<Rightarrow> bool" where
  "hasPermission r permission = (permission \<in> set (rolePermissions r))"

definition assertAuthorized :: "Actor \<Rightarrow> Permission \<Rightarrow> js_error + unit" where
  "assertAuthorized actor permission =
    (if \<not> hasPermission (role actor) permission
     then Inl (Error (''Actor '' @ userId actor @ '' ('' @ roleName (role actor)
                       @ '') is not authorized for '' @ permissionName permission))
     else Inr ())"





section \<open>Domain records (\<^verbatim>\<open>src/domain.ts\<close>)\<close>

datatype AppointmentStatus = Scheduled | CheckedIn | Completed | Cancelled

datatype InsuranceTier = Primary | Secondary


datatype LedgerEntryType = Charge | Payment | Adjustment | Claim | InsurancePayment

datatype BlockType = Available | Booked | Break | Hold

record PatientRecord =
  pat_id :: string
  firstName :: string
  lastName :: string
  dateOfBirth :: string

record AppointmentRecord =
  appt_id :: string
  appt_patientId :: string
  appt_provider :: string
  appt_reason :: string
  appt_startAt :: string
  appt_endAt :: string
  appt_status :: AppointmentStatus

record FamilyMember =
  fm_patientId :: string
  relationToGuarantor :: string
  isGuarantor :: bool

record FamilyRecord =
  fam_id :: string
  guarantorPatientId :: string
  members :: "FamilyMember list"
  fam_createdAt :: string
  fam_updatedAt :: string

record InsurancePlanRecord =
  ins_id :: string
  ins_patientId :: string
  tier :: InsuranceTier
  carrier :: string
  benefitPercentages :: "(string \<times> rat) list"   \<comment> \<open>\<^verbatim>\<open>Record<string, number>\<close>\<close>

record TreatmentPlanRecord =
  tp_id :: string
  tp_patientId :: string
  heading :: string

record TreatmentPlanItemRecord =
  item_id :: string
  item_planId :: string
  item_patientId :: string
  adaCode :: string
  fee :: rat
  allowedFee :: "rat option"
  priority :: int
  insuranceEstPrimary :: rat
  insuranceEstSecondary :: rat
  patientEst :: rat
  item_updatedAt :: string

record LedgerEntryRecord =
  le_id :: string
  le_patientId :: string
  le_type :: LedgerEntryType
  amount :: rat
  entryDate :: string

record ScheduleBlockRecord =
  blk_id :: string
  blk_provider :: string
  blk_startAt :: string
  blk_endAt :: string
  blockType :: BlockType



section \<open>In-memory stores (\<^verbatim>\<open>src/store/memoryStore.ts\<close>, \<^verbatim>\<open>src/store/memoryClinicOpsRepository.ts\<close>)\<close>

definition Map_get :: "('v \<Rightarrow> string) \<Rightarrow> 'v list \<Rightarrow> string \<Rightarrow> 'v option" where
  "Map_get key m k = find (\<lambda>v. key v = k) m"

fun Map_set :: "('v \<Rightarrow> string) \<Rightarrow> 'v list \<Rightarrow> 'v \<Rightarrow> 'v list" where
  "Map_set key [] v = [v]"
| "Map_set key (x # xs) v = (if key x = key v then v # xs else x # Map_set key xs v)"

record MemoryDentalStore =
  patients :: "PatientRecord list"
  appointments :: "AppointmentRecord list"

record MemoryClinicOpsRepository =
  families :: "FamilyRecord list"
  insurancePlans :: "InsurancePlanRecord list"
  treatmentPlans :: "TreatmentPlanRecord list"
  treatmentPlanItems :: "TreatmentPlanItemRecord list"
  ledgerEntries :: "LedgerEntryRecord list"
  scheduleBlocks :: "ScheduleBlockRecord list"

definition overlap :: "string \<Rightarrow> string \<Rightarrow> string \<Rightarrow> string \<Rightarrow> bool" where
  "overlap startA endA startB endB = (startA < endB \<and> endA > startB)"

definition getPatient :: "MemoryDentalStore \<Rightarrow> string \<Rightarrow> PatientRecord option" where
  "getPatient st patientId = Map_get pat_id (patients st) patientId"

text \<open>
  The sorts of the list methods use \<^verbatim>\<open>localeCompare\<close>; it is read as the order of the
  code units, and \<^verbatim>\<open>Array.prototype.sort\<close> is stable, as \<^const>\<open>sort_key\<close> is.
\<close>

definition listAppointmentsByRange ::
  "MemoryDentalStore \<Rightarrow> string \<Rightarrow> string \<Rightarrow> string option \<Rightarrow> AppointmentRecord list" where
  "listAppointmentsByRange st startAt endAt provider =
    sort_key appt_startAt
      (filter (\<lambda>appointment.
          let overlaps = (appt_startAt appointment < endAt \<and> appt_endAt appointment > startAt)
          in if \<not> overlaps then False
             else if (case provider of None \<Rightarrow> False
                      | Some p \<Rightarrow> p \<noteq> [] \<and> appt_provider appointment \<noteq> p) then False
             else True)
        (appointments st))"

definition findFamilyById :: "MemoryClinicOpsRepository \<Rightarrow> string \<Rightarrow> FamilyRecord option" where
  "findFamilyById r familyId = Map_get fam_id (families r) familyId"

definition findFamilyByGuarantor ::
  "MemoryClinicOpsRepository \<Rightarrow> string \<Rightarrow> FamilyRecord option" where
  "findFamilyByGuarantor r guarantor =
    find (\<lambda>family. guarantorPatientId family = guarantor) (families r)"

definition saveFamily :: "MemoryClinicOpsRepository \<Rightarrow> FamilyRecord \<Rightarrow> MemoryClinicOpsRepository" where
  "saveFamily r family = r\<lparr>families := Map_set fam_id (families r) family\<rparr>"






definition listScheduleBlocksByProviderInRange ::
  "MemoryClinicOpsRepository \<Rightarrow> string \<Rightarrow> string \<Rightarrow> string \<Rightarrow> ScheduleBlockRecord list" where
  "listScheduleBlocksByProviderInRange r provider startIso endIso =
    sort_key blk_startAt
      (filter (\<lambda>block. overlap (blk_startAt block) (blk_endAt block) startIso endIso)
        (filter (\<lambda>block. blk_provider block = provider) (scheduleBlocks r)))"


section \<open>Clinic operations service (\<^verbatim>\<open>src/services/clinicOps.ts\<close>)\<close>

subsection \<open>Helpers\<close>

definition startOfDayIso :: "string \<Rightarrow> string" where
  "startOfDayIso date = date @ ''T00:00:00.000Z''"

definition endOfDayIso :: "string \<Rightarrow> string" where
  "endOfDayIso date = date @ ''T23:59:59.999Z''"

text \<open>
  \<^verbatim>\<open>clampPercent\<close>: a value that is not a finite number gives the fallback. An absent
  value is \<^const>\<open>None\<close>; every \<^typ>\<open>rat\<close> is a finite number.
\<close>

definition clampPercent :: "rat option \<Rightarrow> rat \<Rightarrow> rat" where
  "clampPercent v fallback =
    (case v of None \<Rightarrow> fallback | Some x \<Rightarrow> max 0 (min 100 x))"

definition estimateCategoryFromAdaCode :: "string \<Rightarrow> string" where
  "estimateCategoryFromAdaCode code0 =
    (let code = toUpperCase code0 in
     if startsWith code ''D1'' \<or> startsWith code ''T1'' then ''preventive''
     else if startsWith code ''D3'' \<or> startsWith code ''T3'' \<or> startsWith code ''D2''
       then ''restorative''
     else if startsWith code ''D33'' \<or> startsWith code ''D34'' then ''endodontic''
     else if startsWith code ''D4'' then ''periodontal''
     else if startsWith code ''D7'' then ''oralSurgery''
     else if startsWith code ''D27'' then ''crowns''
     else if startsWith code ''D5'' \<or> startsWith code ''D6'' then ''prosthodontics''
     else ''restorative'')"



record ClinicOpsService =
  store :: MemoryDentalStore
  repo :: MemoryClinicOpsRepository

text \<open>An optional string that is truthy: present and not empty.\<close>

definition truthy :: "string option \<Rightarrow> string option" where
  "truthy s = (case s of None \<Rightarrow> None | Some x \<Rightarrow> if x = [] then None else Some x)"

subsection \<open>\<^verbatim>\<open>upsertFamily\<close>\<close>

record UpsertFamilyInput =
  in_familyId :: "string option"
  in_guarantorPatientId :: string
  in_memberPatientId :: string
  in_relationToGuarantor :: string

text \<open>
  \<^verbatim>\<open>existingMember.relationToGuarantor = ...\<close> on the member that \<^verbatim>\<open>find\<close> returned:
  the first member of that patient id changes, where it stands.
\<close>

fun setRelationOfFirst :: "string \<Rightarrow> string \<Rightarrow> FamilyMember list \<Rightarrow> FamilyMember list" where
  "setRelationOfFirst pid rel [] = []"
| "setRelationOfFirst pid rel (m # ms) =
    (if fm_patientId m = pid then m\<lparr>relationToGuarantor := rel\<rparr> # ms
     else m # setRelationOfFirst pid rel ms)"

definition upsertFamily ::
  "ClinicOpsService \<Rightarrow> UpsertFamilyInput \<Rightarrow> string \<Rightarrow> string
    \<Rightarrow> (js_error + FamilyRecord) \<times> ClinicOpsService" where
  "upsertFamily svc input now uuid =
    (case (getPatient (store svc) (in_guarantorPatientId input),
           getPatient (store svc) (in_memberPatientId input)) of
       (Some guarantor, Some member) \<Rightarrow>
         let byId = (case truthy (in_familyId input) of
                       None \<Rightarrow> None
                     | Some fid \<Rightarrow> findFamilyById (repo svc) fid);
             found = (case byId of
                        None \<Rightarrow> findFamilyByGuarantor (repo svc) (in_guarantorPatientId input)
                      | Some f \<Rightarrow> Some f);
             family = (case found of
                         None \<Rightarrow>
                           \<lparr>fam_id = (case truthy (in_familyId input) of
                                       None \<Rightarrow> uuid | Some fid \<Rightarrow> fid),
                            guarantorPatientId = in_guarantorPatientId input,
                            members = [\<lparr>fm_patientId = in_guarantorPatientId input,
                                        relationToGuarantor = ''self'',
                                        isGuarantor = True\<rparr>],
                            fam_createdAt = now,
                            fam_updatedAt = now\<rparr>
                       | Some f \<Rightarrow> f);
             existingMember =
               find (\<lambda>m. fm_patientId m = in_memberPatientId input) (members family);
             family' = (case existingMember of
                          Some m \<Rightarrow>
                            family\<lparr>members :=
                              setRelationOfFirst (in_memberPatientId input)
                                (in_relationToGuarantor input) (members family)\<rparr>
                        | None \<Rightarrow>
                            family\<lparr>members := members family @
                              [\<lparr>fm_patientId = in_memberPatientId input,
                                relationToGuarantor = in_relationToGuarantor input,
                                isGuarantor = False\<rparr>]\<rparr>);
             family'' = family'\<lparr>fam_updatedAt := now\<rparr>
         in (Inr family'', svc\<lparr>repo := saveFamily (repo svc) family''\<rparr>)
     | _ \<Rightarrow> (Inl (Error ''Guarantor and member must both exist''), svc))"

subsection \<open>\<^verbatim>\<open>estimateTreatmentPlan\<close>\<close>


text \<open>
  \<^verbatim>\<open>plan?.benefitPercentages?.[category]\<close> for a plan that may be absent.
\<close>

definition benefitOf :: "InsurancePlanRecord option \<Rightarrow> string \<Rightarrow> rat option" where
  "benefitOf plan category =
    (case plan of None \<Rightarrow> None | Some p \<Rightarrow> map_of (benefitPercentages p) category)"

text \<open>
  The body of the callback that \<^verbatim>\<open>estimateTreatmentPlan\<close> maps over the items of the
  plan, up to the save: the item with its three estimates recomputed.
\<close>

definition estimateItem ::
  "InsurancePlanRecord option \<Rightarrow> InsurancePlanRecord option \<Rightarrow> string
    \<Rightarrow> TreatmentPlanItemRecord \<Rightarrow> TreatmentPlanItemRecord" where
  "estimateItem primary secondary now item =
    (let category = estimateCategoryFromAdaCode (adaCode item);
         allowed = (case allowedFee item of Some a \<Rightarrow> a | None \<Rightarrow> fee item);
         primaryPct = clampPercent (benefitOf primary category) 0;
         primaryEstimate = (allowed * primaryPct) / 100;
         remainingAfterPrimary = max 0 (allowed - primaryEstimate);
         secondaryPct = clampPercent (benefitOf secondary category) 0;
         secondaryEstimate = (remainingAfterPrimary * secondaryPct) / 100;
         patientEstimate = max 0 (fee item - primaryEstimate - secondaryEstimate)
     in item\<lparr>insuranceEstPrimary := toFixed2 primaryEstimate,
             insuranceEstSecondary := toFixed2 secondaryEstimate,
             patientEst := toFixed2 patientEstimate,
             item_updatedAt := now\<rparr>)"





subsection \<open>\<^verbatim>\<open>getAccountSnapshot\<close>\<close>






subsection \<open>\<^verbatim>\<open>createTimeSlots\<close> and \<^verbatim>\<open>findOpenSlots\<close>\<close>

record Slot =
  startAt :: string
  endAt :: string

text \<open>
  The \<^verbatim>\<open>while\<close> loop of \<^verbatim>\<open>createTimeSlots\<close>, with its variables \<open>cursor\<close> and \<open>slots\<close>.
  With a step that is not positive the loop does not end; \<^const>\<open>None\<close> is not returning.
\<close>

partial_function (option) createTimeSlots_loop ::
  "int \<Rightarrow> int \<Rightarrow> int \<Rightarrow> int \<Rightarrow> Slot list \<Rightarrow> Slot list option" where
  "createTimeSlots_loop cursor end' durationMs intervalMs slots =
    (if cursor + durationMs \<le> end' then
       createTimeSlots_loop (cursor + intervalMs) end' durationMs intervalMs
         (slots @ [\<lparr>startAt = Date_toISOString cursor,
                    endAt = Date_toISOString (cursor + durationMs)\<rparr>])
     else Some slots)"

declare createTimeSlots_loop.simps [code]

text \<open>
  A bound that does not parse is \<^verbatim>\<open>NaN\<close>: the loop condition is false at once.
\<close>

definition createTimeSlots :: "string \<Rightarrow> string \<Rightarrow> int \<Rightarrow> int \<Rightarrow> Slot list option" where
  "createTimeSlots startIso endIso durationMinutes' intervalMinutes' =
    (let durationMs = durationMinutes' * 60 * 1000;
         intervalMs = intervalMinutes' * 60 * 1000
     in case (Date_getTime startIso, Date_getTime endIso) of
          (Some cursor, Some end') \<Rightarrow>
            createTimeSlots_loop cursor end' durationMs intervalMs []
        | _ \<Rightarrow> Some [])"

record FindOpenSlotsInput =
  fo_provider :: string
  fo_date :: string
  durationMinutes :: int
  intervalMinutes :: "int option"
  startHour :: "int option"
  endHour :: "int option"

definition hourIso :: "string \<Rightarrow> int \<Rightarrow> string" where
  "hourIso date h = date @ ''T'' @ padStart (String_int h) 2 CHR ''0'' @ '':00:00.000Z''"

definition availableBlocksOf :: "ScheduleBlockRecord list \<Rightarrow> ScheduleBlockRecord list" where
  "availableBlocksOf providerBlocks = filter (\<lambda>block. blockType block = Available) providerBlocks"

definition blockingBlocksOf :: "ScheduleBlockRecord list \<Rightarrow> ScheduleBlockRecord list" where
  "blockingBlocksOf providerBlocks =
    filter (\<lambda>block. blockType block \<in> set [Booked, Break, Hold]) providerBlocks"

text \<open>The predicate of the final \<^verbatim>\<open>baseSlots.filter\<close>.\<close>

definition slotIsOpen ::
  "ScheduleBlockRecord list \<Rightarrow> AppointmentRecord list \<Rightarrow> ScheduleBlockRecord list
    \<Rightarrow> Slot \<Rightarrow> bool" where
  "slotIsOpen availableBlocks appts blockingBlocks slot =
    (if length availableBlocks > 0 \<and>
        \<not> list_ex (\<lambda>block. startAt slot \<ge> blk_startAt block \<and> endAt slot \<le> blk_endAt block)
             availableBlocks
     then False
     else if list_ex (\<lambda>appointment.
                overlap (startAt slot) (endAt slot)
                  (appt_startAt appointment) (appt_endAt appointment)) appts
     then False
     else if list_ex (\<lambda>block.
                overlap (startAt slot) (endAt slot) (blk_startAt block) (blk_endAt block))
              blockingBlocks
     then False
     else True)"

definition findOpenSlots :: "ClinicOpsService \<Rightarrow> FindOpenSlotsInput \<Rightarrow> Slot list option" where
  "findOpenSlots svc input =
    (let dayStart = fo_date input @ ''T00:00:00.000Z'';
         dayEnd = fo_date input @ ''T23:59:59.999Z'';
         startHour' = (case startHour input of Some h \<Rightarrow> h | None \<Rightarrow> 8);
         endHour' = (case endHour input of Some h \<Rightarrow> h | None \<Rightarrow> 17);
         intervalMinutes' =
           (case intervalMinutes input of None \<Rightarrow> 15 | Some n \<Rightarrow> if n = 0 then 15 else n);
         rangeStart = hourIso (fo_date input) startHour';
         rangeEnd = hourIso (fo_date input) endHour'
     in case createTimeSlots rangeStart rangeEnd (durationMinutes input) intervalMinutes' of
          None \<Rightarrow> None
        | Some baseSlots \<Rightarrow>
            let appts = listAppointmentsByRange (store svc) dayStart dayEnd
                          (Some (fo_provider input));
                providerBlocks = listScheduleBlocksByProviderInRange (repo svc)
                                   (fo_provider input) dayStart dayEnd;
                availableBlocks = availableBlocksOf providerBlocks;
                blockingBlocks = blockingBlocksOf providerBlocks
            in Some (filter (slotIsOpen availableBlocks appts blockingBlocks) baseSlots))"


section \<open>Audit log and the authorized-action wrapper
  (\<^verbatim>\<open>src/security/audit.ts\<close>, \<^verbatim>\<open>index.ts\<close>)\<close>











section \<open>The steps of \<^verbatim>\<open>upsertFamily\<close>\<close>

text \<open>
  Names for the parts of \<^const>\<open>upsertFamily\<close>, used in the proofs: the family that the
  call locates (by id, else by guarantor), the family that it creates when it locates
  none, the member list with the member linked, and the family that it saves.
\<close>

definition locateFamily :: "MemoryClinicOpsRepository \<Rightarrow> UpsertFamilyInput \<Rightarrow> FamilyRecord option" where
  "locateFamily r input =
    (case (case truthy (in_familyId input) of
             None \<Rightarrow> None
           | Some fid \<Rightarrow> findFamilyById r fid) of
       None \<Rightarrow> findFamilyByGuarantor r (in_guarantorPatientId input)
     | Some f \<Rightarrow> Some f)"

definition seedFamily :: "UpsertFamilyInput \<Rightarrow> string \<Rightarrow> string \<Rightarrow> FamilyRecord" where
  "seedFamily input now uuid =
    \<lparr>fam_id = (case truthy (in_familyId input) of None \<Rightarrow> uuid | Some fid \<Rightarrow> fid),
     guarantorPatientId = in_guarantorPatientId input,
     members = [\<lparr>fm_patientId = in_guarantorPatientId input,
                 relationToGuarantor = ''self'', isGuarantor = True\<rparr>],
     fam_createdAt = now, fam_updatedAt = now\<rparr>"

definition withMember :: "string \<Rightarrow> string \<Rightarrow> FamilyMember list \<Rightarrow> FamilyMember list" where
  "withMember pid rel ms =
    (case find (\<lambda>m. fm_patientId m = pid) ms of
       Some m \<Rightarrow> setRelationOfFirst pid rel ms
     | None \<Rightarrow> ms @ [\<lparr>fm_patientId = pid, relationToGuarantor = rel, isGuarantor = False\<rparr>])"

definition familyToSave ::
  "MemoryClinicOpsRepository \<Rightarrow> UpsertFamilyInput \<Rightarrow> string \<Rightarrow> string \<Rightarrow> FamilyRecord" where
  "familyToSave r input now uuid =
    (case locateFamily r input of None \<Rightarrow> seedFamily input now uuid | Some f \<Rightarrow> f)
      \<lparr>members := withMember (in_memberPatientId input) (in_relationToGuarantor input)
          (members (case locateFamily r input of
                      None \<Rightarrow> seedFamily input now uuid | Some f \<Rightarrow> f)),
       fam_updatedAt := now\<rparr>"

section \<open>The estimation waterfall in the words of the specification\<close>




section \<open>The ledger sums in the words of the specification\<close>




definition sumWhere :: "(LedgerEntryRecord \<Rightarrow> bool) \<Rightarrow> LedgerEntryRecord list \<Rightarrow> rat" where
  "sumWhere P entries = sum_list (map amount (filter P entries))"


section \<open>Sample data\<close>





text \<open>A store and a repository with one plan, two insurance plans, a ledger and a schedule.\<close>

definition sampleAppointment :: AppointmentRecord where
  "sampleAppointment =
    \<lparr>appt_id = ''a1'', appt_patientId = ''p1'', appt_provider = ''dr-moss'',
     appt_reason = ''exam'', appt_startAt = ''2024-01-15T10:00:00.000Z'',
     appt_endAt = ''2024-01-15T10:30:00.000Z'', appt_status = Scheduled\<rparr>"

definition sampleAvailable :: ScheduleBlockRecord where
  "sampleAvailable =
    \<lparr>blk_id = ''b1'', blk_provider = ''dr-lee'',
     blk_startAt = ''2024-01-15T09:00:00.000Z'', blk_endAt = ''2024-01-15T12:00:00.000Z'',
     blockType = Available\<rparr>"

definition sampleBreak :: ScheduleBlockRecord where
  "sampleBreak =
    \<lparr>blk_id = ''b2'', blk_provider = ''dr-moss'',
     blk_startAt = ''2024-01-15T12:00:00.000Z'', blk_endAt = ''2024-01-15T13:00:00.000Z'',
     blockType = Break\<rparr>"

definition sampleStore :: MemoryDentalStore where
  "sampleStore =
    \<lparr>patients =
       [\<lparr>pat_id = ''p1'', firstName = ''Ada'', lastName = ''Kim'', dateOfBirth = ''1980-02-03''\<rparr>,
        \<lparr>pat_id = ''p2'', firstName = ''Ben'', lastName = ''Kim'', dateOfBirth = ''2012-07-09''\<rparr>],
     appointments = [sampleAppointment]\<rparr>"

definition benefits :: "rat \<Rightarrow> (string \<times> rat) list" where
  "benefits periodontalPct =
    [(''preventive'', 100), (''restorative'', 80), (''endodontic'', 80),
     (''periodontal'', periodontalPct), (''oralSurgery'', 80), (''crowns'', 50),
     (''prosthodontics'', 50)]"

definition samplePrimary :: InsurancePlanRecord where
  "samplePrimary =
    \<lparr>ins_id = ''pr1'', ins_patientId = ''p1'', tier = Primary, carrier = ''Alpha'',
     benefitPercentages = benefits 80\<rparr>"

definition sampleSecondary :: InsurancePlanRecord where
  "sampleSecondary =
    \<lparr>ins_id = ''s1'', ins_patientId = ''p1'', tier = Secondary, carrier = ''Beta'',
     benefitPercentages = benefits 50\<rparr>"

definition samplePlan :: TreatmentPlanRecord where
  "samplePlan = \<lparr>tp_id = ''tp1'', tp_patientId = ''p1'', heading = ''Perio''\<rparr>"

definition sampleItem :: TreatmentPlanItemRecord where
  "sampleItem =
    \<lparr>item_id = ''i1'', item_planId = ''tp1'', item_patientId = ''p1'', adaCode = ''d4341'',
     fee = 1000, allowedFee = Some 800, priority = 0, insuranceEstPrimary = 0,
     insuranceEstSecondary = 0, patientEst = 1000,
     item_updatedAt = ''2024-01-02T09:00:00.000Z''\<rparr>"

definition sampleRepo :: MemoryClinicOpsRepository where
  "sampleRepo =
    \<lparr>families = [],
     insurancePlans = [sampleSecondary, samplePrimary],
     treatmentPlans = [samplePlan],
     treatmentPlanItems = [sampleItem],
     ledgerEntries =
       [\<lparr>le_id = ''l1'', le_patientId = ''p1'', le_type = Charge, amount = 100,
         entryDate = ''2024-01-16T12:00:00.000Z''\<rparr>,
        \<lparr>le_id = ''l2'', le_patientId = ''p1'', le_type = Payment, amount = 40,
         entryDate = ''2024-02-20T12:00:00.000Z''\<rparr>,
        \<lparr>le_id = ''l3'', le_patientId = ''p2'', le_type = Charge, amount = 100,
         entryDate = ''2024-01-16T12:00:00.000Z''\<rparr>],
     scheduleBlocks = [sampleAvailable, sampleBreak]\<rparr>"

definition sampleService :: ClinicOpsService where
  "sampleService = \<lparr>store = sampleStore, repo = sampleRepo\<rparr>"


definition sampleFamilyInput :: "string \<Rightarrow> UpsertFamilyInput" where
  "sampleFamilyInput memberId =
    \<lparr>in_familyId = None, in_guarantorPatientId = ''p1'', in_memberPatientId = memberId,
     in_relationToGuarantor = ''child''\<rparr>"

definition sampleFamily :: FamilyRecord where
  "sampleFamily =
    \<lparr>fam_id = ''f1'', guarantorPatientId = ''p1'',
     members = [\<lparr>fm_patientId = ''p1'', relationToGuarantor = ''self'', isGuarantor = True\<rparr>,
                \<lparr>fm_patientId = ''p2'', relationToGuarantor = ''child'', isGuarantor = False\<rparr>],
     fam_createdAt = ''2024-01-15T08:00:00.000Z'',
     fam_updatedAt = ''2024-01-15T08:00:00.000Z''\<rparr>"

(*VERIFICATION*)
section \<open>Verification\<close>

subsection \<open>Authorized-action wrapper\<close>








subsection \<open>Benefit categories\<close>

lemma startsWith_D33: "startsWith c ''D33'' \<or> startsWith c ''D34'' \<Longrightarrow> startsWith c ''D3''"
  by (auto simp: startsWith_def prefix_def)

lemma startsWith_D27: "startsWith c ''D27'' \<Longrightarrow> startsWith c ''D2''"
  by (auto simp: startsWith_def prefix_def)


text \<open>
  Claim C3 says that each of the seven categories is the category of some procedure
  code. In \<^verbatim>\<open>estimateCategoryFromAdaCode\<close> the test for \<^verbatim>\<open>D3\<close> stands before the test
  for \<^verbatim>\<open>D33\<close> and \<^verbatim>\<open>D34\<close>, and the test for \<^verbatim>\<open>D2\<close> before the test for
  \<^verbatim>\<open>D27\<close>: no code is mapped to \<^verbatim>\<open>endodontic\<close> or to \<^verbatim>\<open>crowns\<close>, and the codes
  \<^verbatim>\<open>D3310\<close> and \<^verbatim>\<open>D2740\<close> come out as \<^verbatim>\<open>restorative\<close>.
\<close>

theorem estimateCategoryFromAdaCode_unreachable:
  "estimateCategoryFromAdaCode code \<noteq> ''endodontic''
   \<and> estimateCategoryFromAdaCode code \<noteq> ''crowns''
   \<and> estimateCategoryFromAdaCode ''D3310'' = ''restorative''
   \<and> estimateCategoryFromAdaCode ''D2740'' = ''restorative''"
proof -
  have 1: "estimateCategoryFromAdaCode code \<noteq> ''endodontic''"
    using startsWith_D33[of "toUpperCase code"]
    by (auto simp: estimateCategoryFromAdaCode_def Let_def)
  have 2: "estimateCategoryFromAdaCode code \<noteq> ''crowns''"
    using startsWith_D27[of "toUpperCase code"]
    by (auto simp: estimateCategoryFromAdaCode_def Let_def)
  have 3: "estimateCategoryFromAdaCode ''D3310'' = ''restorative''" by code_simp
  have 4: "estimateCategoryFromAdaCode ''D2740'' = ''restorative''" by code_simp
  from 1 2 3 4 show ?thesis by blast
qed


subsection \<open>Authorization policy\<close>

lemma write_not_readonly:
  "suffix '':write'' (permissionName p) \<Longrightarrow> p \<notin> set (rolePermissions Readonly)"
  by (cases p) (simp_all add: suffix_def)

lemma all_perms: "p \<in> set allPermissions"
  by (cases p) (simp_all add: allPermissions_def)

text \<open>
  Claim C4. \<^verbatim>\<open>assertAuthorized\<close> returns exactly when the permission is in the table
  entry of the actor's role and throws otherwise; the readonly role is refused every
  permission whose name ends in \<^verbatim>\<open>:write\<close>; the admin and system roles pass every check.
\<close>

theorem assertAuthorized_iff_policy:
  "((assertAuthorized actor p = Inr ()) = (p \<in> set (rolePermissions (role actor))))
   \<and> ((\<exists>e. assertAuthorized actor p = Inl e) = (p \<notin> set (rolePermissions (role actor))))
   \<and> (role actor = Readonly \<and> suffix '':write'' (permissionName p)
        \<longrightarrow> (\<exists>e. assertAuthorized actor p = Inl e))
   \<and> (role actor = Admin \<or> role actor = System \<longrightarrow> assertAuthorized actor p = Inr ())"
  using write_not_readonly[of p] all_perms[of p]
  by (auto simp: assertAuthorized_def hasPermission_def)

theorem assertAuthorized_iff_policy_witness:
  "assertAuthorized \<lparr>userId = ''u1'', role = Readonly, purpose = None\<rparr> PatientWrite
     = Inl (Error ''Actor u1 (readonly) is not authorized for patient:write'')
   \<and> assertAuthorized \<lparr>userId = ''u1'', role = Readonly, purpose = None\<rparr> PatientRead = Inr ()
   \<and> assertAuthorized \<lparr>userId = ''u2'', role = Admin, purpose = None\<rparr> MigrationWrite = Inr ()"
  using assertAuthorized_iff_policy[of "\<lparr>userId = ''u1'', role = Readonly, purpose = None\<rparr>"
          PatientWrite]
        assertAuthorized_iff_policy[of "\<lparr>userId = ''u2'', role = Admin, purpose = None\<rparr>"
          MigrationWrite]
  by (simp add: assertAuthorized_def hasPermission_def)

subsection \<open>Purpose of use\<close>



subsection \<open>Benefit estimation\<close>

lemma toFixed2_of_int [simp]: "toFixed2 (of_int n) = of_int n"
proof -
  have a: "\<lfloor>(of_int n :: rat) * 100 + 1 / 2\<rfloor> = n * 100"
    by (rule floor_unique) auto
  have b: "\<lfloor>- (of_int n :: rat) * 100 + 1 / 2\<rfloor> = - n * 100"
    by (rule floor_unique) auto
  show ?thesis using a b by (simp add: toFixed2_def)
qed

lemma toFixed2_numeral [simp]: "toFixed2 (numeral k) = numeral k"
  using toFixed2_of_int[of "numeral k"] by simp

lemma toFixed2_0 [simp]: "toFixed2 0 = 0"
  using toFixed2_of_int[of 0] by simp

lemma Map_get_Map_set:
  "Map_get key (Map_set key m v) k = (if k = key v then Some v else Map_get key m k)"
  by (induction m) (auto simp: Map_get_def)




lemma item_id_estimateItem [simp]: "item_id (estimateItem p s now item) = item_id item"
  by (simp add: estimateItem_def Let_def)

















subsection \<open>Account snapshot\<close>

lemma sumWhere_Nil [simp]: "sumWhere P [] = 0"
  by (simp add: sumWhere_def)

lemma sumWhere_Cons [simp]:
  "sumWhere P (e # es) = (if P e then amount e + sumWhere P es else sumWhere P es)"
  by (simp add: sumWhere_def)










subsection \<open>Family linker\<close>

lemma upsertFamily_steps:
  assumes "getPatient (store svc) (in_guarantorPatientId input) = Some guarantor"
    and "getPatient (store svc) (in_memberPatientId input) = Some member"
  shows "upsertFamily svc input now uuid =
    (let family = (case locateFamily (repo svc) input of
                     None \<Rightarrow> seedFamily input now uuid | Some f \<Rightarrow> f);
         family'' = family\<lparr>members := withMember (in_memberPatientId input)
                                (in_relationToGuarantor input) (members family),
                            fam_updatedAt := now\<rparr>
     in (Inr family'', svc\<lparr>repo := saveFamily (repo svc) family''\<rparr>))"
  using assms
  by (simp add: upsertFamily_def locateFamily_def seedFamily_def withMember_def Let_def
           split: option.splits)

lemma upsertFamily_missing:
  assumes "getPatient (store svc) (in_guarantorPatientId input) = None
           \<or> getPatient (store svc) (in_memberPatientId input) = None"
  shows "upsertFamily svc input now uuid
          = (Inl (Error ''Guarantor and member must both exist''), svc)"
  using assms by (auto simp: upsertFamily_def split: option.splits)

lemma find_setRelationOfFirst:
  "find (\<lambda>m. fm_patientId m = pid) (setRelationOfFirst pid rel ms)
    = map_option (\<lambda>m. m\<lparr>relationToGuarantor := rel\<rparr>) (find (\<lambda>m. fm_patientId m = pid) ms)"
  by (induction ms) auto

lemma setRelationOfFirst_same:
  "find (\<lambda>m. fm_patientId m = pid) ms = Some m \<Longrightarrow> relationToGuarantor m = rel
    \<Longrightarrow> setRelationOfFirst pid rel ms = ms"
  by (induction ms) (auto split: if_splits)

lemma map_id_setRelationOfFirst [simp]:
  "map fm_patientId (setRelationOfFirst pid rel ms) = map fm_patientId ms"
  by (induction ms) auto

lemma find_Some_set: "find P xs = Some a \<Longrightarrow> a \<in> set xs \<and> P a"
  by (induction xs) (auto split: if_splits)

lemma find_None_filter: "find P xs = None \<Longrightarrow> filter P xs = []"
  by (induction xs) (auto split: if_splits)

lemma withMember_first:
  "\<exists>m. find (\<lambda>m. fm_patientId m = pid) (withMember pid rel ms) = Some m
        \<and> relationToGuarantor m = rel"
proof (cases "find (\<lambda>m. fm_patientId m = pid) ms")
  case None
  then have "\<forall>x \<in> set ms. fm_patientId x \<noteq> pid" by (simp add: find_None_iff)
  then have "find (\<lambda>m. fm_patientId m = pid)
               (ms @ [\<lparr>fm_patientId = pid, relationToGuarantor = rel, isGuarantor = False\<rparr>])
             = Some \<lparr>fm_patientId = pid, relationToGuarantor = rel, isGuarantor = False\<rparr>"
    by (induction ms) auto
  with None show ?thesis by (simp add: withMember_def)
next
  case (Some a)
  then show ?thesis by (simp add: withMember_def find_setRelationOfFirst)
qed

lemma withMember_idem: "withMember pid rel (withMember pid rel ms) = withMember pid rel ms"
proof -
  obtain m where m: "find (\<lambda>m. fm_patientId m = pid) (withMember pid rel ms) = Some m"
    "relationToGuarantor m = rel"
    using withMember_first by blast
  then show ?thesis
    using setRelationOfFirst_same[OF m] by (simp add: withMember_def[of pid rel "withMember pid rel ms"])
qed

lemma withMember_ids:
  "map fm_patientId (withMember pid rel ms)
    = (if pid \<in> set (map fm_patientId ms) then map fm_patientId ms
       else map fm_patientId ms @ [pid])"
proof (cases "find (\<lambda>m. fm_patientId m = pid) ms")
  case None
  then have "pid \<notin> set (map fm_patientId ms)" by (auto simp: find_None_iff)
  with None show ?thesis by (simp add: withMember_def)
next
  case (Some a)
  then have "pid \<in> set (map fm_patientId ms)"
    using find_Some_set[OF Some] by force
  with Some show ?thesis by (simp add: withMember_def)
qed

lemma withMember_distinct:
  "distinct (map fm_patientId ms) \<Longrightarrow> distinct (map fm_patientId (withMember pid rel ms))"
  by (simp add: withMember_ids)

lemma distinct_count_one:
  "distinct (map f xs) \<Longrightarrow> k \<in> set (map f xs) \<Longrightarrow> length (filter (\<lambda>x. f x = k) xs) = 1"
  by (induction xs) (auto simp: filter_empty_conv image_iff)

lemma withMember_count:
  "distinct (map fm_patientId ms)
    \<Longrightarrow> length (filter (\<lambda>x. fm_patientId x = pid) (withMember pid rel ms)) = 1"
  by (rule distinct_count_one) (auto simp: withMember_distinct withMember_ids)

lemma find_unique_distinct:
  "distinct (map f xs) \<Longrightarrow> find (\<lambda>x. f x = k) xs = Some m \<Longrightarrow> x \<in> set xs \<Longrightarrow> f x = k
    \<Longrightarrow> x = m"
  by (induction xs) (auto split: if_splits simp: image_iff)


lemma find_Map_set_found:
  "find P xs = Some f \<Longrightarrow> P f' \<Longrightarrow> key f' = key f \<Longrightarrow> find P (Map_set key xs f') = Some f'"
  by (induction xs) (auto split: if_splits)

lemma find_Map_set_new:
  "find P xs = None \<Longrightarrow> P f' \<Longrightarrow> find P (Map_set key xs f') = Some f'"
  by (induction xs) (auto split: if_splits)

lemma Map_get_key: "Map_get key m k = Some f \<Longrightarrow> key f = k \<and> f \<in> set m"
  using find_Some_set[of "\<lambda>v. key v = k" m f] by (simp add: Map_get_def)

lemma findFamilyByGuarantor_Some:
  "findFamilyByGuarantor r g = Some f \<Longrightarrow> guarantorPatientId f = g \<and> f \<in> set (families r)"
  unfolding findFamilyByGuarantor_def by (drule find_Some_set) simp

lemma findFamilyById_Some:
  "findFamilyById r k = Some f \<Longrightarrow> fam_id f = k \<and> f \<in> set (families r)"
  unfolding findFamilyById_def by (rule Map_get_key)

lemma locateFamily_after_save:
  "locateFamily (saveFamily r (familyToSave r input now uuid)) input
    = Some (familyToSave r input now uuid)"
proof (cases "truthy (in_familyId input)")
  case None
  show ?thesis
  proof (cases "findFamilyByGuarantor r (in_guarantorPatientId input)")
    case n: None
    then show ?thesis
      using None
      by (simp add: locateFamily_def familyToSave_def saveFamily_def findFamilyByGuarantor_def
            seedFamily_def find_Map_set_new)
  next
    case (Some f)
    then have "guarantorPatientId f = in_guarantorPatientId input"
      using findFamilyByGuarantor_Some by blast
    then show ?thesis
      using None Some
      by (simp add: locateFamily_def familyToSave_def saveFamily_def findFamilyByGuarantor_def
            find_Map_set_found[where f = f])
  qed
next
  case (Some k)
  show ?thesis
  proof (cases "findFamilyById r k")
    case byId: (Some f)
    then have "fam_id f = k" using findFamilyById_Some by blast
    then show ?thesis
      using Some byId
      by (simp add: locateFamily_def familyToSave_def saveFamily_def findFamilyById_def
            Map_get_Map_set)
  next
    case noId: None
    show ?thesis
    proof (cases "findFamilyByGuarantor r (in_guarantorPatientId input)")
      case None
      then show ?thesis
        using Some noId
        by (simp add: locateFamily_def familyToSave_def saveFamily_def findFamilyById_def
              findFamilyByGuarantor_def seedFamily_def Map_get_Map_set)
    next
      case g: (Some f)
      then have f: "guarantorPatientId f = in_guarantorPatientId input" "f \<in> set (families r)"
        using findFamilyByGuarantor_Some by blast+
      have "fam_id f \<noteq> k"
        using noId f(2) by (auto simp: findFamilyById_def Map_get_def find_None_iff)
      then show ?thesis
        using Some noId g f
        by (simp add: locateFamily_def familyToSave_def saveFamily_def findFamilyById_def
              findFamilyByGuarantor_def Map_get_Map_set find_Map_set_found[where f = f])
    qed
  qed
qed

lemma located_in_families: "locateFamily r input = Some f \<Longrightarrow> f \<in> set (families r)"
  using findFamilyById_Some findFamilyByGuarantor_Some
  by (fastforce simp: locateFamily_def split: option.splits)

lemma familyToSave_distinct:
  assumes "\<forall>f \<in> set (families r). distinct (map fm_patientId (members f))"
  shows "distinct (map fm_patientId (members (familyToSave r input now uuid)))"
proof (cases "locateFamily r input")
  case None
  then show ?thesis
    by (simp add: familyToSave_def seedFamily_def withMember_distinct)
next
  case (Some f)
  then have "distinct (map fm_patientId (members f))"
    using assms located_in_families by blast
  then show ?thesis using Some by (simp add: familyToSave_def withMember_distinct)
qed

lemma members_familyToSave:
  "members (familyToSave r input now uuid)
    = withMember (in_memberPatientId input) (in_relationToGuarantor input)
        (members (case locateFamily r input of
                    None \<Rightarrow> seedFamily input now uuid | Some f \<Rightarrow> f))"
  by (simp add: familyToSave_def)

lemma upsertFamily_familyToSave:
  assumes "getPatient (store svc) (in_guarantorPatientId input) = Some guarantor"
    and "getPatient (store svc) (in_memberPatientId input) = Some member"
  shows "upsertFamily svc input now uuid =
     (Inr (familyToSave (repo svc) input now uuid),
      svc\<lparr>repo := saveFamily (repo svc) (familyToSave (repo svc) input now uuid)\<rparr>)"
  using upsertFamily_steps[OF assms] by (simp add: familyToSave_def Let_def)

lemma familyToSave_again:
  "familyToSave (saveFamily r (familyToSave r input now uuid)) input now2 uuid2
    = (familyToSave r input now uuid)\<lparr>fam_updatedAt := now2\<rparr>"
  unfolding familyToSave_def[of "saveFamily r (familyToSave r input now uuid)"]
    locateFamily_after_save
  by (simp add: members_familyToSave withMember_idem)


lemma set_Map_set: "set (Map_set key m v) \<subseteq> insert v (set m)"
  by (induction m) auto

lemma key_in_Map_set: "key v \<in> set (map key (Map_set key m v))"
  by (induction m) auto

lemma keys_Map_set_present:
  "key v \<in> set (map key m) \<Longrightarrow> map key (Map_set key m v) = map key m"
  by (induction m) auto

lemma withMember_relation:
  assumes "distinct (map fm_patientId ms)"
    and "x \<in> set (withMember pid rel ms)" and "fm_patientId x = pid"
  shows "relationToGuarantor x = rel"
proof -
  obtain m where m: "find (\<lambda>m. fm_patientId m = pid) (withMember pid rel ms) = Some m"
    "relationToGuarantor m = rel"
    using withMember_first by blast
  have "x = m"
    using find_unique_distinct[OF withMember_distinct[OF assms(1)] m(1) assms(2) assms(3)] .
  with m show ?thesis by simp
qed

text \<open>
  Claim C9. When the guarantor or the member patient does not exist, \<^verbatim>\<open>upsertFamily\<close>
  throws and the stores are as they were. When both exist and no family of the
  repository lists a patient twice, a first call returns a family in which the member
  has exactly one entry, with the relation of the call; a second call with the same
  input locates that family, leaves its member list as it is, and returns and saves it
  with only \<^verbatim>\<open>updatedAt\<close> refreshed: no family and no member entry is added.
\<close>

theorem upsertFamily_idempotent:
  "(getPatient (store svc) (in_guarantorPatientId input) = None
      \<or> getPatient (store svc) (in_memberPatientId input) = None
    \<longrightarrow> upsertFamily svc input nowA uuidA
          = (Inl (Error ''Guarantor and member must both exist''), svc))
   \<and> (getPatient (store svc) (in_guarantorPatientId input) \<noteq> None
      \<and> getPatient (store svc) (in_memberPatientId input) \<noteq> None
      \<and> (\<forall>f \<in> set (families (repo svc)). distinct (map fm_patientId (members f)))
    \<longrightarrow> (\<exists>f1 svc1 svc2.
           upsertFamily svc input nowA uuidA = (Inr f1, svc1)
         \<and> upsertFamily svc1 input nowB uuidB = (Inr (f1\<lparr>fam_updatedAt := nowB\<rparr>), svc2)
         \<and> length (filter (\<lambda>x. fm_patientId x = in_memberPatientId input) (members f1)) = 1
         \<and> (\<forall>x \<in> set (members f1). fm_patientId x = in_memberPatientId input
               \<longrightarrow> relationToGuarantor x = in_relationToGuarantor input)
         \<and> findFamilyById (repo svc2) (fam_id f1) = Some (f1\<lparr>fam_updatedAt := nowB\<rparr>)
         \<and> map fam_id (families (repo svc2)) = map fam_id (families (repo svc1))
         \<and> (\<forall>f \<in> set (families (repo svc2)). distinct (map fm_patientId (members f)))))"
proof (intro conjI impI)
  assume "getPatient (store svc) (in_guarantorPatientId input) = None
      \<or> getPatient (store svc) (in_memberPatientId input) = None"
  then show "upsertFamily svc input nowA uuidA
          = (Inl (Error ''Guarantor and member must both exist''), svc)"
    by (rule upsertFamily_missing)
next
  assume a: "getPatient (store svc) (in_guarantorPatientId input) \<noteq> None
      \<and> getPatient (store svc) (in_memberPatientId input) \<noteq> None
      \<and> (\<forall>f \<in> set (families (repo svc)). distinct (map fm_patientId (members f)))"
  then obtain guarantor member where
    g: "getPatient (store svc) (in_guarantorPatientId input) = Some guarantor" and
    m: "getPatient (store svc) (in_memberPatientId input) = Some member" and
    inv: "\<forall>f \<in> set (families (repo svc)). distinct (map fm_patientId (members f))"
    by auto
  let ?f1 = "familyToSave (repo svc) input nowA uuidA"
  let ?svc1 = "svc\<lparr>repo := saveFamily (repo svc) ?f1\<rparr>"
  let ?f2 = "?f1\<lparr>fam_updatedAt := nowB\<rparr>"
  let ?svc2 = "?svc1\<lparr>repo := saveFamily (repo ?svc1) ?f2\<rparr>"
  have d1: "distinct (map fm_patientId (members ?f1))"
    using inv by (rule familyToSave_distinct)
  have d0: "distinct (map fm_patientId
              (members (case locateFamily (repo svc) input of
                          None \<Rightarrow> seedFamily input nowA uuidA | Some f \<Rightarrow> f)))"
    using inv located_in_families[of "repo svc" input]
    by (auto simp: seedFamily_def split: option.splits)
  have 1: "upsertFamily svc input nowA uuidA = (Inr ?f1, ?svc1)"
    using g m by (rule upsertFamily_familyToSave)
  have g1: "getPatient (store ?svc1) (in_guarantorPatientId input) = Some guarantor"
    and m1: "getPatient (store ?svc1) (in_memberPatientId input) = Some member"
    using g m by simp_all
  have 2: "upsertFamily ?svc1 input nowB uuidB = (Inr ?f2, ?svc2)"
    using upsertFamily_familyToSave[OF g1 m1, of nowB uuidB]
    by (simp add: familyToSave_again)
  have 3: "length (filter (\<lambda>x. fm_patientId x = in_memberPatientId input) (members ?f1)) = 1"
    unfolding members_familyToSave using d0 by (rule withMember_count)
  have 4: "\<forall>x \<in> set (members ?f1). fm_patientId x = in_memberPatientId input
               \<longrightarrow> relationToGuarantor x = in_relationToGuarantor input"
    unfolding members_familyToSave using withMember_relation[OF d0] by blast
  have 5: "findFamilyById (repo ?svc2) (fam_id ?f1) = Some ?f2"
    by (simp add: findFamilyById_def saveFamily_def Map_get_Map_set)
  have 6: "map fam_id (families (repo ?svc2)) = map fam_id (families (repo ?svc1))"
    using key_in_Map_set[of fam_id ?f1 "families (repo svc)"]
    by (simp add: saveFamily_def keys_Map_set_present)
  have 7: "\<forall>f \<in> set (families (repo ?svc2)). distinct (map fm_patientId (members f))"
  proof
    fix f assume "f \<in> set (families (repo ?svc2))"
    then have "f = ?f2 \<or> f = ?f1 \<or> f \<in> set (families (repo svc))"
      using set_Map_set[of fam_id "Map_set fam_id (families (repo svc)) ?f1" ?f2]
            set_Map_set[of fam_id "families (repo svc)" ?f1]
      by (auto simp: saveFamily_def)
    then show "distinct (map fm_patientId (members f))"
      using d1 inv by auto
  qed
  from 1 2 3 4 5 6 7
  show "\<exists>f1 svc1 svc2.
           upsertFamily svc input nowA uuidA = (Inr f1, svc1)
         \<and> upsertFamily svc1 input nowB uuidB = (Inr (f1\<lparr>fam_updatedAt := nowB\<rparr>), svc2)
         \<and> length (filter (\<lambda>x. fm_patientId x = in_memberPatientId input) (members f1)) = 1
         \<and> (\<forall>x \<in> set (members f1). fm_patientId x = in_memberPatientId input
               \<longrightarrow> relationToGuarantor x = in_relationToGuarantor input)
         \<and> findFamilyById (repo svc2) (fam_id f1) = Some (f1\<lparr>fam_updatedAt := nowB\<rparr>)
         \<and> map fam_id (families (repo svc2)) = map fam_id (families (repo svc1))
         \<and> (\<forall>f \<in> set (families (repo svc2)). distinct (map fm_patientId (members f)))"
    by blast
qed


lemma sample_patients:
  "getPatient (store sampleService) ''p1'' \<noteq> None"
  "getPatient (store sampleService) ''p2'' \<noteq> None"
  "getPatient (store sampleService) ''p9'' = None"
  "families (repo sampleService) = []"
  by (simp_all add: sampleService_def sampleStore_def sampleRepo_def getPatient_def Map_get_def)

lemma sample_upsertFamily:
  "fst (upsertFamily sampleService (sampleFamilyInput ''p2'') ''2024-01-15T08:00:00.000Z'' ''f1'')
    = Inr sampleFamily"
  by code_simp

theorem upsertFamily_idempotent_witness:
  "upsertFamily sampleService (sampleFamilyInput ''p9'') ''2024-01-15T08:00:00.000Z'' ''f1''
     = (Inl (Error ''Guarantor and member must both exist''), sampleService)
   \<and> (\<exists>svc1 svc2.
        upsertFamily sampleService (sampleFamilyInput ''p2'') ''2024-01-15T08:00:00.000Z'' ''f1''
          = (Inr sampleFamily, svc1)
      \<and> upsertFamily svc1 (sampleFamilyInput ''p2'') ''2024-01-16T09:30:00.000Z'' ''f2''
          = (Inr (sampleFamily\<lparr>fam_updatedAt := ''2024-01-16T09:30:00.000Z''\<rparr>), svc2)
      \<and> length (filter (\<lambda>x. fm_patientId x = ''p2'') (members sampleFamily)) = 1)"
proof -
  note t = upsertFamily_idempotent[where svc = sampleService
             and nowA = "''2024-01-15T08:00:00.000Z''" and uuidA = "''f1''"
             and nowB = "''2024-01-16T09:30:00.000Z''" and uuidB = "''f2''"]
  have a: "upsertFamily sampleService (sampleFamilyInput ''p9'') ''2024-01-15T08:00:00.000Z'' ''f1''
     = (Inl (Error ''Guarantor and member must both exist''), sampleService)"
    using t[where input = "sampleFamilyInput ''p9''", THEN conjunct1]
    by (simp add: sampleFamilyInput_def sample_patients)
  have "\<exists>f1 svc1 svc2.
        upsertFamily sampleService (sampleFamilyInput ''p2'') ''2024-01-15T08:00:00.000Z'' ''f1''
          = (Inr f1, svc1)
      \<and> upsertFamily svc1 (sampleFamilyInput ''p2'') ''2024-01-16T09:30:00.000Z'' ''f2''
          = (Inr (f1\<lparr>fam_updatedAt := ''2024-01-16T09:30:00.000Z''\<rparr>), svc2)
      \<and> length (filter (\<lambda>x. fm_patientId x = ''p2'') (members f1)) = 1"
    using t[where input = "sampleFamilyInput ''p2''", THEN conjunct2]
    by (simp add: sampleFamilyInput_def sample_patients) blast
  then obtain f1 svc1 svc2 where
    b: "upsertFamily sampleService (sampleFamilyInput ''p2'') ''2024-01-15T08:00:00.000Z'' ''f1''
          = (Inr f1, svc1)"
       "upsertFamily svc1 (sampleFamilyInput ''p2'') ''2024-01-16T09:30:00.000Z'' ''f2''
          = (Inr (f1\<lparr>fam_updatedAt := ''2024-01-16T09:30:00.000Z''\<rparr>), svc2)"
       "length (filter (\<lambda>x. fm_patientId x = ''p2'') (members f1)) = 1"
    by blast
  have "f1 = sampleFamily" using sample_upsertFamily b(1) by simp
  with a b show ?thesis by blast
qed


end
